theory Spec2Isabelle
  imports Complex_Main
begin

section \<open>Python values, errors and text\<close>

text \<open>
  The scraper is one Python module, \<^verbatim>\<open>rotten_tomatoes_web_scraper.py\<close>. Its functions
  are embedded as HOL functions. A Python exception is a value of \<open>pyerror\<close>, and a
  function that may raise returns \<open>pyerror + 'a\<close> with \<open>Inl\<close> for the exception.

  A Python \<open>str\<close> is modelled as a \<open>string\<close> holding the bytes of its UTF-8 encoding,
  which is taken to be well formed. White space is the white space of Unicode, matched
  by its encodings. The only other character class of the code is the \<open>\d\<close> of the
  pattern of line 118, which is modelled for the ASCII digits.
\<close>

datatype pyerror =
    AttributeError | TypeError | KeyError | IndexError | ValueError
  | UnboundLocalError | RequestException | FeatureNotFound

text \<open>A score is a Python \<open>float\<close> or the string \<open>'not found'\<close>; a sheet cell may also be
  \<open>None\<close>. The type \<open>'f\<close> of the floats is a parameter: the model computes nothing on
  floats itself, see \<open>pylib\<close> below.\<close>

datatype 'f pyval = Str string | Float 'f | PyNone

abbreviation not_found :: string where
  "not_found \<equiv> ''not found''"

definition is_digit :: "char \<Rightarrow> bool" where
  "is_digit c \<longleftrightarrow> c \<in> set ''0123456789''"

definition starts_with :: "string \<Rightarrow> string \<Rightarrow> bool" where
  "starts_with s p \<longleftrightarrow> take (length p) s = p"

text \<open>
  The characters for which \<^verbatim>\<open>str.isspace\<close> holds, each as its UTF-8 encoding: U+0009
  to U+000D, U+001C to U+0020, U+0085, U+00A0, U+1680, U+2000 to U+200A, U+2028, U+2029,
  U+202F, U+205F and U+3000.
\<close>

definition space_encodings :: "string list" where
  "space_encodings =
     [[CHR 0x09], [CHR 0x0A], [CHR 0x0B], [CHR 0x0C], [CHR 0x0D],
      [CHR 0x1C], [CHR 0x1D], [CHR 0x1E], [CHR 0x1F], [CHR 0x20],
      [CHR 0xC2, CHR 0x85], [CHR 0xC2, CHR 0xA0], [CHR 0xE1, CHR 0x9A, CHR 0x80],
      [CHR 0xE2, CHR 0x80, CHR 0x80], [CHR 0xE2, CHR 0x80, CHR 0x81],
      [CHR 0xE2, CHR 0x80, CHR 0x82], [CHR 0xE2, CHR 0x80, CHR 0x83],
      [CHR 0xE2, CHR 0x80, CHR 0x84], [CHR 0xE2, CHR 0x80, CHR 0x85],
      [CHR 0xE2, CHR 0x80, CHR 0x86], [CHR 0xE2, CHR 0x80, CHR 0x87],
      [CHR 0xE2, CHR 0x80, CHR 0x88], [CHR 0xE2, CHR 0x80, CHR 0x89],
      [CHR 0xE2, CHR 0x80, CHR 0x8A], [CHR 0xE2, CHR 0x80, CHR 0xA8],
      [CHR 0xE2, CHR 0x80, CHR 0xA9], [CHR 0xE2, CHR 0x80, CHR 0xAF],
      [CHR 0xE2, CHR 0x81, CHR 0x9F], [CHR 0xE3, CHR 0x80, CHR 0x80]]"

text \<open>\<open>drop_spaces ws s\<close> removes from the front of \<open>s\<close> every leading occurrence of a
  member of \<open>ws\<close>. \<^verbatim>\<open>s.strip()\<close> removes the white space at both ends; at the end the
  encodings are matched backwards.\<close>

fun drop_spaces :: "string list \<Rightarrow> string \<Rightarrow> string" where
  "drop_spaces ws [] = []"
| "drop_spaces ws (c # cs) =
     (case List.find (starts_with (c # cs)) ws of
        None \<Rightarrow> c # cs
      | Some w \<Rightarrow> drop_spaces ws (drop (length w - 1) cs))"

definition lstrip :: "string \<Rightarrow> string" where
  "lstrip s = drop_spaces space_encodings s"

definition rstrip :: "string \<Rightarrow> string" where
  "rstrip s = rev (drop_spaces (map rev space_encodings) (rev s))"

definition strip :: "string \<Rightarrow> string" where
  "strip s = rstrip (lstrip s)"

text \<open>\<^verbatim>\<open>s.strip(chars)\<close> for ASCII \<open>chars\<close> (the only use is \<open>'%'\<close>).\<close>

definition strip_chars :: "string \<Rightarrow> string \<Rightarrow> string" where
  "strip_chars chars s =
     rev (dropWhile (\<lambda>c. c \<in> set chars) (rev (dropWhile (\<lambda>c. c \<in> set chars) s)))"

text \<open>\<^verbatim>\<open>s.split(sep)\<close> for a one-character separator: always at least one part.\<close>

fun split_on :: "char \<Rightarrow> string \<Rightarrow> string list" where
  "split_on sep [] = [[]]"
| "split_on sep (c # cs) =
     (if c = sep then [] # split_on sep cs
      else (case split_on sep cs of
              [] \<Rightarrow> [[c]]
            | p # ps \<Rightarrow> (c # p) # ps))"

text \<open>\<^verbatim>\<open>sep.join(parts)\<close>.\<close>

fun join :: "string \<Rightarrow> string list \<Rightarrow> string" where
  "join sep [] = []"
| "join sep [p] = p"
| "join sep (p # q # ps) = p @ sep @ join sep (q # ps)"

text \<open>\<^verbatim>\<open>sub in s\<close>.\<close>

fun contains :: "string \<Rightarrow> string \<Rightarrow> bool" where
  "contains sub [] = (sub = [])"
| "contains sub (c # cs) = (starts_with (c # cs) sub \<or> contains sub cs)"

text \<open>\<^verbatim>\<open>s.replace(old, new)\<close> for a non-empty \<open>old\<close> (the only use is \<open>'Aired'\<close>):
  occurrences are replaced from the left and do not overlap.\<close>

fun replace_all :: "string \<Rightarrow> string \<Rightarrow> string \<Rightarrow> string" where
  "replace_all old new [] = []"
| "replace_all old new (c # cs) =
     (if old \<noteq> [] \<and> starts_with (c # cs) old
      then new @ replace_all old new (drop (length old - 1) cs)
      else c # replace_all old new cs)"

text \<open>\<open>index_from i xs x\<close> is \<open>i\<close> plus the position of the first \<open>x\<close> in \<open>xs\<close>
  (\<^verbatim>\<open>xs.index(x)\<close>, with \<open>None\<close> where it raises). Decimal digits and the rendering of a natural number (\<^verbatim>\<open>str(n)\<close>, and the
  zero-padded two-digit fields of \<^verbatim>\<open>strftime\<close>).\<close>

fun index_from :: "nat \<Rightarrow> 'a list \<Rightarrow> 'a \<Rightarrow> nat option" where
  "index_from i [] x = None"
| "index_from i (y # ys) x = (if y = x then Some i else index_from (Suc i) ys x)"

definition digit_val :: "char \<Rightarrow> nat" where
  "digit_val c = (case index_from 0 ''0123456789'' c of None \<Rightarrow> 0 | Some n \<Rightarrow> n)"

definition digit_char :: "nat \<Rightarrow> char" where
  "digit_char n = ''0123456789'' ! (n mod 10)"

fun str_nat :: "nat \<Rightarrow> string" where
  "str_nat n = (if n < 10 then [digit_char n] else str_nat (n div 10) @ [digit_char n])"

declare str_nat.simps [simp del]

definition pad2 :: "nat \<Rightarrow> string" where
  "pad2 n = [digit_char (n div 10), digit_char n]"

section \<open>The Python library\<close>

text \<open>
  Three operations of the library are parameters of the model, so that every theorem
  holds of whatever they compute:
  \<^item> \<open>py_float s\<close> is \<^verbatim>\<open>float(s)\<close> for a string \<open>s\<close>, with \<open>None\<close> where it raises
    \<open>ValueError\<close>;
  \<^item> \<open>div_100 x\<close> is \<^verbatim>\<open>x / 100\<close> on floats;
  \<^item> \<open>py_strptime s\<close> is \<^verbatim>\<open>datetime.strptime(s, '%b %d, %Y')\<close>: year, month and day of
    the date parsed, with \<open>None\<close> where it raises \<open>ValueError\<close>.
\<close>

record 'f pylib =
  py_float :: "string \<Rightarrow> 'f option"
  div_100 :: "'f \<Rightarrow> 'f"
  py_strptime :: "string \<Rightarrow> (nat \<times> nat \<times> nat) option"

text \<open>\<^verbatim>\<open>dt.strftime('%m/%d/%y')\<close> for the date \<open>dt\<close> of a \<^verbatim>\<open>datetime\<close>: month, day and the
  last two digits of the year, each with two digits.\<close>

definition strftime :: "nat \<times> nat \<times> nat \<Rightarrow> string" where
  "strftime dt = (case dt of (y, m, d) \<Rightarrow> pad2 m @ ''/'' @ pad2 d @ ''/'' @ pad2 (y mod 100))"

section \<open>The parsed document\<close>

text \<open>
  The extractors use four operations of a parsed page: find the first element with a tag
  name and a class or attribute, find all elements with a tag name, read an element's
  text, read an attribute. A page is the list of its elements in document order; each
  element carries its tag name, its classes, its other attributes, and the text strings
  below it in document order.
\<close>

record element =
  el_name :: string
  el_class :: "string list"
  el_attrs :: "(string \<times> string) list"
  el_strings :: "string list"

type_synonym soup = "element list"

text \<open>\<^verbatim>\<open>soup.find(name)\<close>, \<^verbatim>\<open>soup.find(name, class_=cls)\<close> (the class is one of the
  element's classes), \<^verbatim>\<open>e.get(k)\<close>, \<^verbatim>\<open>soup.find(name, attrs={k: v})\<close> and
  \<^verbatim>\<open>soup.find_all(name)\<close>. A missing element or attribute is \<open>None\<close>.\<close>

definition find_name :: "soup \<Rightarrow> string \<Rightarrow> element option" where
  "find_name soup name = List.find (\<lambda>e. el_name e = name) soup"

definition find_class :: "soup \<Rightarrow> string \<Rightarrow> string \<Rightarrow> element option" where
  "find_class soup name cls = List.find (\<lambda>e. el_name e = name \<and> cls \<in> set (el_class e)) soup"

definition get_attr :: "element \<Rightarrow> string \<Rightarrow> string option" where
  "get_attr e k = map_of (el_attrs e) k"

definition find_attr :: "soup \<Rightarrow> string \<Rightarrow> string \<Rightarrow> string \<Rightarrow> element option" where
  "find_attr soup name k v = List.find (\<lambda>e. el_name e = name \<and> get_attr e k = Some v) soup"

definition find_all :: "soup \<Rightarrow> string \<Rightarrow> element list" where
  "find_all soup name = filter (\<lambda>e. el_name e = name) soup"

text \<open>\<^verbatim>\<open>e.get_text()\<close> joins the strings; \<^verbatim>\<open>e.get_text(strip=True)\<close> strips each string
  and drops the ones that become empty.\<close>

definition get_text :: "element \<Rightarrow> string" where
  "get_text e = concat (el_strings e)"

definition get_text_strip :: "element \<Rightarrow> string" where
  "get_text_strip e = concat (filter (\<lambda>s. s \<noteq> []) (map strip (el_strings e)))"

section \<open>The extractors\<close>

text \<open>The eight values an extractor returns, in the order of its \<^verbatim>\<open>return\<close>.\<close>

record 'f media_record =
  r_title :: string
  r_show_type :: string
  r_year :: string
  r_genre :: string
  r_runtime :: string
  r_tomatometer :: "'f pyval"
  r_audience_score :: "'f pyval"
  r_release_date :: string

text \<open>Lines 33 to 48: \<open>True\<close> when \<^verbatim>\<open>strptime\<close> returns, \<open>False\<close> when it raises
  \<open>ValueError\<close>.\<close>

definition check_date_format :: "'f pylib \<Rightarrow> string \<Rightarrow> bool" where
  "check_date_format lib v = (case py_strptime lib v of Some dt \<Rightarrow> True | None \<Rightarrow> False)"

text \<open>\<^verbatim>\<open>float(s) / 100\<close>: the \<open>ValueError\<close> of \<^verbatim>\<open>float\<close>, or the quotient that the library
  computes.\<close>

definition float_div100 :: "'f pylib \<Rightarrow> string \<Rightarrow> pyerror + 'f pyval" where
  "float_div100 lib s =
     (case py_float lib s of
        None \<Rightarrow> Inl ValueError
      | Some p \<Rightarrow> Inr (Float (div_100 lib p)))"

text \<open>Lines 82 and 83: the score read from an attribute of the score board.\<close>

definition movie_score ::
  "'f pylib \<Rightarrow> element option \<Rightarrow> string \<Rightarrow> pyerror + 'f pyval" where
  "movie_score lib score_board a =
     (case score_board of
        None \<Rightarrow> Inr (Str not_found)
      | Some sb \<Rightarrow>
          (if get_attr sb a \<notin> {Some not_found, Some ''''}
           then float_div100 lib (case get_attr sb a of None \<Rightarrow> not_found | Some v \<Rightarrow> v)
           else Inr (Str not_found)))"

text \<open>Line 87: the release date, reformatted when it has the date format.\<close>

definition reformat_date :: "'f pylib \<Rightarrow> string \<Rightarrow> pyerror + string" where
  "reformat_date lib s =
     (if check_date_format lib s
      then (case py_strptime lib s of None \<Rightarrow> Inl ValueError | Some dt \<Rightarrow> Inr (strftime dt))
      else Inr not_found)"

definition extract_movie_info :: "'f pylib \<Rightarrow> soup \<Rightarrow> pyerror + 'f media_record" where
  "extract_movie_info lib soup =
     (let title_html = find_class soup ''h1'' ''title'';
          title = (case title_html of Some e \<Rightarrow> get_text_strip e | None \<Rightarrow> not_found)
      in case find_class soup ''p'' ''info'' of
           None \<Rightarrow> Inl AttributeError
         | Some info_html \<Rightarrow>
             (let info_text = get_text_strip info_html;
                  info_text_parts = split_on CHR '','' info_text;
                  year = (if length info_text_parts > 0 then strip (info_text_parts ! 0)
                          else not_found);
                  runtime = (if length info_text_parts > 2 then strip (info_text_parts ! 2)
                             else not_found);
                  genre_html = find_class soup ''span'' ''genre'';
                  genre = (case genre_html of
                             Some e \<Rightarrow> join '', '' (map strip (split_on CHR '','' (get_text_strip e)))
                           | None \<Rightarrow> not_found);
                  score_board = find_name soup ''score-board-deprecated''
              in case movie_score lib score_board ''tomatometerscore'' of
                   Inl err \<Rightarrow> Inl err
                 | Inr tomatometer \<Rightarrow>
                     (case movie_score lib score_board ''audiencescore'' of
                        Inl err \<Rightarrow> Inl err
                      | Inr audience_score \<Rightarrow>
                          (let release_date_html = find_name soup ''time'';
                               release_date = (case release_date_html of
                                                 Some e \<Rightarrow> get_text_strip e
                                               | None \<Rightarrow> not_found)
                           in case reformat_date lib release_date of
                                Inl err \<Rightarrow> Inl err
                              | Inr release_date \<Rightarrow>
                                  Inr \<lparr>r_title = title, r_show_type = ''Movie'', r_year = year,
                                       r_genre = genre, r_runtime = runtime,
                                       r_tomatometer = tomatometer,
                                       r_audience_score = audience_score,
                                       r_release_date = release_date\<rparr>))))"

text \<open>
  Line 110: \<^verbatim>\<open>re.search(r'(https://www\.rottentomatoes\.com/tv/[^/]+)/?', url)\<close>. The
  search takes the leftmost position where the prefix is followed by at least one
  character other than \<open>/\<close>; group 1 is the prefix and the longest such run.
\<close>

definition tv_prefix :: string where
  "tv_prefix = ''https://www.rottentomatoes.com/tv/''"

definition match_series_url :: "string \<Rightarrow> string option" where
  "match_series_url s =
     (if starts_with s tv_prefix
      then (let seg = takeWhile (\<lambda>c. c \<noteq> CHR ''/'') (drop (length tv_prefix) s)
            in if seg \<noteq> [] then Some (tv_prefix @ seg) else None)
      else None)"

fun search_series_url :: "string \<Rightarrow> string option" where
  "search_series_url [] = match_series_url []"
| "search_series_url (c # cs) =
     (case match_series_url (c # cs) of
        Some g \<Rightarrow> Some g
      | None \<Rightarrow> search_series_url cs)"

text \<open>
  Line 118: the pattern is \<open>Season (\d+)\<close>, a space, three characters, a space and
  \<open>(.+)\<close>. The source file holds the three characters U+00E2, U+20AC and U+201C there;
  \<open>separator\<close> is their UTF-8 encoding. Group 1 is the run of digits, group 2 runs to the
  end of the line.
\<close>

definition separator :: string where
  "separator = [CHR 0xC3, CHR 0xA2, CHR 0xE2, CHR 0x82, CHR 0xAC, CHR 0xE2, CHR 0x80, CHR 0x9C]"

definition match_title_season :: "string \<Rightarrow> (string \<times> string) option" where
  "match_title_season s =
     (if starts_with s ''Season ''
      then (let r = drop 7 s;
                n = takeWhile is_digit r;
                r' = dropWhile is_digit r
            in if n \<noteq> [] \<and> starts_with r' ('' '' @ separator @ '' '')
               then (let t = takeWhile (\<lambda>c. c \<noteq> CHR 0x0A) (drop (length separator + 2) r')
                     in if t \<noteq> [] then Some (n, t) else None)
               else None)
      else None)"

fun search_title_season :: "string \<Rightarrow> (string \<times> string) option" where
  "search_title_season [] = match_title_season []"
| "search_title_season (c # cs) =
     (case match_title_season (c # cs) of
        Some g \<Rightarrow> Some g
      | None \<Rightarrow> search_title_season cs)"

text \<open>Line 124: the texts of the links whose \<open>href\<close> contains \<open>genres:\<close>, in the order
  of the loop.\<close>

fun genre_links :: "element list \<Rightarrow> string list" where
  "genre_links [] = []"
| "genre_links (link # links) =
     (if contains ''genres:'' (case get_attr link ''href'' of None \<Rightarrow> [] | Some h \<Rightarrow> h)
      then get_text link # genre_links links
      else genre_links links)"

text \<open>Lines 129 and 133: the score read from the text of a slot.\<close>

definition tv_score :: "'f pylib \<Rightarrow> element option \<Rightarrow> pyerror + 'f pyval" where
  "tv_score lib score_html =
     (let score_text = (case score_html of Some e \<Rightarrow> get_text_strip e | None \<Rightarrow> [])
      in if score_text \<noteq> [] then float_div100 lib (strip_chars ''%'' score_text)
         else Inr (Str not_found))"

text \<open>
  \<open>fetch\<close> stands for \<^verbatim>\<open>requests.get(url, timeout=30)\<close> followed by the HTML parser: the
  parsed page, or the exception raised. The last step follows lines 135 to 143: \<open>year\<close>
  and \<open>release_date\<close> are assigned only inside the \<open>if\<close>, so the \<open>return\<close> raises
  \<open>UnboundLocalError\<close> when the branch is not taken.
\<close>

definition extract_tv_info ::
  "'f pylib \<Rightarrow> (string \<Rightarrow> pyerror + soup) \<Rightarrow> soup \<Rightarrow> string
     \<Rightarrow> pyerror + 'f media_record" where
  "extract_tv_info lib fetch soup url =
     (case search_series_url url of
        None \<Rightarrow> Inl AttributeError
      | Some series_url \<Rightarrow>
          (case fetch series_url of
             Inl err \<Rightarrow> Inl err
           | Inr series_soup \<Rightarrow>
               (let series_year_html = find_attr series_soup ''rt-text'' ''slot'' ''releaseDate'';
                    series_year = (case series_year_html of
                                     Some e \<Rightarrow> get_text e
                                   | None \<Rightarrow> not_found);
                    title_season_html = find_name soup ''h1'';
                    title_season_text = (case title_season_html of
                                           Some e \<Rightarrow> get_text e
                                         | None \<Rightarrow> []);
                    title_season_match = search_title_season title_season_text;
                    season = (case title_season_match of
                                Some g \<Rightarrow> ''Season '' @ fst g
                              | None \<Rightarrow> not_found);
                    title = (case title_season_match of
                               Some g \<Rightarrow> snd g
                             | None \<Rightarrow> not_found);
                    title = (if title \<noteq> [] \<and> season \<noteq> []
                             then strip title @ '' ('' @ season @ '')''
                             else not_found);
                    genre_html = find_all soup ''rt-link'';
                    genres = genre_links genre_html;
                    genre = join '', '' genres
                in case tv_score lib (find_attr soup ''rt-text'' ''slot'' ''criticsScore'') of
                     Inl err \<Rightarrow> Inl err
                   | Inr tomatometer \<Rightarrow>
                       (case tv_score lib (find_attr soup ''rt-text'' ''slot'' ''audienceScore'') of
                          Inl err \<Rightarrow> Inl err
                        | Inr audience_score \<Rightarrow>
                            (let release_date_html = find_attr soup ''rt-text'' ''slot'' ''airDate'';
                                 release_date_text = (case release_date_html of
                                                        Some e \<Rightarrow> get_text_strip e
                                                      | None \<Rightarrow> []);
                                 release_date_unformatted =
                                   (if release_date_text \<noteq> []
                                    then strip (replace_all ''Aired'' [] release_date_text)
                                    else not_found)
                             in if release_date_unformatted \<noteq> not_found
                                then (case py_strptime lib release_date_unformatted of
                                        None \<Rightarrow> Inl ValueError
                                      | Some release_date_datetime \<Rightarrow>
                                          (let release_date =
                                                 (if check_date_format lib release_date_unformatted
                                                  then strftime release_date_datetime
                                                  else not_found);
                                               year =
                                                 (if series_year \<noteq> []
                                                  then str_nat (fst release_date_datetime)
                                                         @ '' ('' @ series_year @ '')''
                                                  else not_found)
                                           in Inr \<lparr>r_title = title, r_show_type = ''TV'',
                                                   r_year = year, r_genre = genre,
                                                   r_runtime = ''N/A'',
                                                   r_tomatometer = tomatometer,
                                                   r_audience_score = audience_score,
                                                   r_release_date = release_date\<rparr>))
                                else Inl UnboundLocalError)))))"

section \<open>The dispatcher\<close>

text \<open>
  The sheet and the log file are the state. The log is configured at level \<open>ERROR\<close>, so a
  record of a lower level is not written. A written range is kept with its parts: the
  first column \<open>B\<close>, the row, and the code point \<open>65 + len(header_row)\<close> of the last
  column.
\<close>

datatype level = WARNING | ERROR

fun level_no :: "level \<Rightarrow> nat" where
  "level_no WARNING = 30"
| "level_no ERROR = 40"

record log_entry =
  log_level :: level
  log_msg :: string
  log_url :: string
  log_exc :: "pyerror option"

record cell_range =
  first_col :: string
  last_col :: nat
  range_row :: int

record 'f world =
  updates :: "(cell_range \<times> 'f pyval list list) list"
  log_file :: "log_entry list"

definition emit :: "log_entry \<Rightarrow> 'f world \<Rightarrow> 'f world" where
  "emit entry w =
     (if level_no ERROR \<le> level_no (log_level entry)
      then w\<lparr>log_file := log_file w @ [entry]\<rparr>
      else w)"

text \<open>\<^verbatim>\<open>xs[i]\<close>: a negative index counts from the end, an index out of range raises.\<close>

definition py_index :: "'a list \<Rightarrow> int \<Rightarrow> pyerror + 'a" where
  "py_index xs i =
     (if 0 \<le> i \<and> i < int (length xs) then Inr (xs ! nat i)
      else if i < 0 \<and> - int (length xs) \<le> i then Inr (xs ! nat (int (length xs) + i))
      else Inl IndexError)"

text \<open>\<^verbatim>\<open>d[k] = v\<close> on a dictionary kept in insertion order.\<close>

fun dict_set ::
  "(string \<times> 'f pyval) list \<Rightarrow> string \<Rightarrow> 'f pyval \<Rightarrow> (string \<times> 'f pyval) list" where
  "dict_set [] k v = [(k, v)]"
| "dict_set (kv # d) k v = (if fst kv = k then (k, v) # d else kv # dict_set d k v)"

text \<open>Line 246: \<^verbatim>\<open>{header_row[i - 1]: None for i in column_indices}\<close>.\<close>

fun init_data :: "string list \<Rightarrow> int list \<Rightarrow> (string \<times> 'f pyval) list
    \<Rightarrow> pyerror + (string \<times> 'f pyval) list" where
  "init_data header_row [] d = Inr d"
| "init_data header_row (i # column_indices) d =
     (case py_index header_row (i - 1) of
        Inl err \<Rightarrow> Inl err
      | Inr k \<Rightarrow> init_data header_row column_indices (dict_set d k PyNone))"

text \<open>Lines 246 to 258: the row is built and written.\<close>

definition update_sheet ::
  "'f media_record \<Rightarrow> 'f world \<Rightarrow> int \<Rightarrow> string list \<Rightarrow> int list \<Rightarrow> pyerror + 'f world" where
  "update_sheet r sheet row_number header_row column_indices =
     (case init_data header_row column_indices [] of
        Inl err \<Rightarrow> Inl err
      | Inr data \<Rightarrow>
          (let data = dict_set data ''Title'' (Str (r_title r));
               data = dict_set data ''Movie or TV'' (Str (r_show_type r));
               data = dict_set data ''Year'' (Str (r_year r));
               data = dict_set data ''Genre'' (Str (r_genre r));
               data = dict_set data ''Runtime'' (Str (r_runtime r));
               data = dict_set data ''Tomatometer'' (r_tomatometer r);
               data = dict_set data ''Audience Score'' (r_audience_score r);
               data = dict_set data ''Release Date'' (Str (r_release_date r));
               update_range = \<lparr>first_col = ''B'', last_col = 65 + length header_row,
                                range_row = row_number\<rparr>
           in Inr (sheet\<lparr>updates := updates sheet @ [(update_range, [map snd data])]\<rparr>)))"

text \<open>The body of the \<open>try\<close>, lines 234 to 258.\<close>

definition scrape_body ::
  "'f pylib \<Rightarrow> (string \<Rightarrow> pyerror + soup) \<Rightarrow> string \<Rightarrow> 'f world \<Rightarrow> int
     \<Rightarrow> string list \<Rightarrow> int list \<Rightarrow> pyerror + 'f world" where
  "scrape_body lib fetch url sheet row_number header_row column_indices =
     (case fetch url of
        Inl err \<Rightarrow> Inl err
      | Inr soup \<Rightarrow>
          (case find_attr soup ''meta'' ''property'' ''og:type'' of
             None \<Rightarrow> Inl TypeError
           | Some meta \<Rightarrow>
               (case get_attr meta ''content'' of
                  None \<Rightarrow> Inl KeyError
                | Some show_type \<Rightarrow>
                    (if contains ''movie'' show_type
                     then (case extract_movie_info lib soup of
                             Inl err \<Rightarrow> Inl err
                           | Inr r \<Rightarrow> update_sheet r sheet row_number header_row column_indices)
                     else if contains ''tv_show'' show_type
                     then (case extract_tv_info lib fetch soup url of
                             Inl err \<Rightarrow> Inl err
                           | Inr r \<Rightarrow> update_sheet r sheet row_number header_row column_indices)
                     else Inr (emit \<lparr>log_level = WARNING,
                                     log_msg = ''Show type not recognized for URL: %s'',
                                     log_url = url, log_exc = None\<rparr> sheet)))))"

text \<open>The \<open>except\<close> clauses, lines 260 to 265: every exception is logged and dropped.\<close>

definition handle_error :: "pyerror \<Rightarrow> string \<Rightarrow> 'f world \<Rightarrow> 'f world" where
  "handle_error err url sheet =
     emit \<lparr>log_level = ERROR,
           log_msg = (if err = RequestException then ''Error making request for %s: %s''
                      else if err = FeatureNotFound then ''Error parsing HTML for %s: %s''
                      else ''Unexpected error scraping %s: %s''),
           log_url = url, log_exc = Some err\<rparr> sheet"

definition scrape_rotten_tomatoes_and_update_sheet ::
  "'f pylib \<Rightarrow> (string \<Rightarrow> pyerror + soup) \<Rightarrow> string \<Rightarrow> 'f world \<Rightarrow> int
     \<Rightarrow> string list \<Rightarrow> int list \<Rightarrow> 'f world" where
  "scrape_rotten_tomatoes_and_update_sheet lib fetch url sheet row_number header_row
       column_indices =
     (case scrape_body lib fetch url sheet row_number header_row column_indices of
        Inl err \<Rightarrow> handle_error err url sheet
      | Inr sheet' \<Rightarrow> sheet')"

text \<open>The loop of \<open>main\<close>, lines 293 to 295: one call per URL, rows counted upwards.\<close>

fun main_loop ::
  "'f pylib \<Rightarrow> (string \<Rightarrow> pyerror + soup) \<Rightarrow> 'f world \<Rightarrow> string list \<Rightarrow> int list
     \<Rightarrow> int \<Rightarrow> string list \<Rightarrow> 'f world" where
  "main_loop lib fetch sheet header_row column_indices row_number [] = sheet"
| "main_loop lib fetch sheet header_row column_indices row_number (url # urls) =
     main_loop lib fetch
       (scrape_rotten_tomatoes_and_update_sheet lib fetch url sheet row_number header_row
          column_indices)
       header_row column_indices (row_number + 1) urls"

section \<open>The properties of the specification\<close>




text \<open>The link test of line 124, and the URL pattern of line 110 as a property of the
  URL: somewhere the prefix is followed by a character other than \<open>/\<close>.\<close>

definition is_genre_link :: "element \<Rightarrow> bool" where
  "is_genre_link link \<longleftrightarrow>
     contains ''genres:'' (case get_attr link ''href'' of None \<Rightarrow> [] | Some h \<Rightarrow> h)"

definition series_url_pattern :: "string \<Rightarrow> bool" where
  "series_url_pattern url \<longleftrightarrow>
     (\<exists>pre c rest. url = pre @ tv_prefix @ c # rest \<and> c \<noteq> CHR ''/'')"

text \<open>A page without a recognised type marker: no \<open>og:type\<close> element, no \<open>content\<close>
  attribute on it, or a value that contains neither \<open>movie\<close> nor \<open>tv_show\<close>.\<close>

definition unrecognized_type :: "soup \<Rightarrow> bool" where
  "unrecognized_type soup =
     (case find_attr soup ''meta'' ''property'' ''og:type'' of
        None \<Rightarrow> True
      | Some meta \<Rightarrow>
          (case get_attr meta ''content'' of
             None \<Rightarrow> True
           | Some v \<Rightarrow> \<not> contains ''movie'' v \<and> \<not> contains ''tv_show'' v))"

text \<open>The text handed to the date check on line 87, and the string handed to
  \<^verbatim>\<open>float\<close> on lines 82 and 83.\<close>

definition time_text :: "soup \<Rightarrow> string" where
  "time_text soup =
     (case find_name soup ''time'' of Some e \<Rightarrow> get_text_strip e | None \<Rightarrow> not_found)"


text \<open>The text of a slot of a season page (empty when the slot is missing), as on lines
  128, 132 and 136, and the air date text handed to \<^verbatim>\<open>strptime\<close> on line 139.\<close>

definition slot_text :: "soup \<Rightarrow> string \<Rightarrow> string" where
  "slot_text soup slot =
     (case find_attr soup ''rt-text'' ''slot'' slot of Some e \<Rightarrow> get_text_strip e | None \<Rightarrow> [])"

definition air_date_text :: "soup \<Rightarrow> string" where
  "air_date_text soup =
     (if slot_text soup ''airDate'' \<noteq> []
      then strip (replace_all ''Aired'' [] (slot_text soup ''airDate''))
      else not_found)"

text \<open>
  A score that is present and malformed: an attribute of the score board of a movie page
  that is there, is neither empty nor \<open>not found\<close>, and that \<^verbatim>\<open>float\<close> rejects; the text
  of a slot of a season page that is not empty and that \<^verbatim>\<open>float\<close> rejects once \<open>%\<close> is
  stripped.
\<close>

definition malformed_attr :: "'f pylib \<Rightarrow> soup \<Rightarrow> string \<Rightarrow> bool" where
  "malformed_attr lib soup a =
     (case find_name soup ''score-board-deprecated'' of
        None \<Rightarrow> False
      | Some sb \<Rightarrow>
          (case get_attr sb a of
             None \<Rightarrow> False
           | Some v \<Rightarrow> v \<noteq> not_found \<and> v \<noteq> [] \<and> py_float lib v = None))"

definition malformed_slot :: "'f pylib \<Rightarrow> soup \<Rightarrow> string \<Rightarrow> bool" where
  "malformed_slot lib soup slot \<longleftrightarrow>
     slot_text soup slot \<noteq> [] \<and> py_float lib (strip_chars ''%'' (slot_text soup slot)) = None"

text \<open>A record with its release date blanked, to compare the other seven fields.\<close>

definition without_release_date ::
  "pyerror + 'f media_record \<Rightarrow> pyerror + 'f media_record" where
  "without_release_date res =
     (case res of Inl err \<Rightarrow> Inl err | Inr r \<Rightarrow> Inr (r\<lparr>r_release_date := []\<rparr>))"

text \<open>The entry that the last \<open>except\<close> clause of the dispatcher writes to the log.\<close>

definition unexpected_error_entry :: "string \<Rightarrow> pyerror \<Rightarrow> log_entry" where
  "unexpected_error_entry url err =
     \<lparr>log_level = ERROR, log_msg = ''Unexpected error scraping %s: %s'',
      log_url = url, log_exc = Some err\<rparr>"

section \<open>An example library and example pages\<close>

text \<open>
  The concrete inputs of the evaluations below. The example library stands for the
  Python library on the strings and numbers of these evaluations only:
  \<^item> \<open>float_of_digits\<close> gives the value of \<^verbatim>\<open>float\<close> on a non-empty string of ASCII
    digits; it is used on such strings and on \<open>'abc'\<close> and \<open>'not found'\<close>, where
    \<^verbatim>\<open>float\<close> raises \<open>ValueError\<close> as well;
  \<^item> the division is the exact quotient, which is the float that the code computes
    whenever that quotient is a binary fraction; the scores of the records returned
    below are 50, 75 and 150;
  \<^item> \<open>strptime_ascii\<close> follows the library on strings of ASCII characters: the library
    matches the regular expression
    \<^verbatim>\<open>(?P<b>jan|feb|...|dec)\s+(?P<d>3[0-1]|[1-2]\d|0[1-9]|[1-9]| [1-9]),\s+(?P<Y>\d\d\d\d)\<close>
    (English month names, letter case ignored) against the whole string and then builds
    the date, which fails for year 0 and for a day the month does not have. On other
    strings the \<open>\s\<close> and \<open>\d\<close> of the library are those of Unicode, and
    \<open>strptime_ascii\<close> does not stand for it.
\<close>

definition float_of_digits :: "string \<Rightarrow> real option" where
  "float_of_digits s =
     (if s \<noteq> [] \<and> list_all is_digit s
      then Some (real (foldl (\<lambda>n c. 10 * n + digit_val c) 0 s))
      else None)"

definition ascii_space :: "char \<Rightarrow> bool" where
  "ascii_space c \<longleftrightarrow>
     c \<in> set [CHR 0x09, CHR 0x0A, CHR 0x0B, CHR 0x0C, CHR 0x0D,
               CHR 0x1C, CHR 0x1D, CHR 0x1E, CHR 0x1F, CHR 0x20]"

definition a_month :: "string list" where
  "a_month = [''jan'', ''feb'', ''mar'', ''apr'', ''may'', ''jun'',
              ''jul'', ''aug'', ''sep'', ''oct'', ''nov'', ''dec'']"

definition lower :: "char \<Rightarrow> char" where
  "lower c =
     (case map_of (zip ''ABCDEFGHIJKLMNOPQRSTUVWXYZ'' ''abcdefghijklmnopqrstuvwxyz'') c of
        None \<Rightarrow> c
      | Some l \<Rightarrow> l)"

text \<open>The month number (1 to 12) of a month abbreviation.\<close>

definition month_of :: "string \<Rightarrow> nat option" where
  "month_of mon = index_from 1 a_month (map lower mon)"

text \<open>The alternatives of \<^verbatim>\<open>%d\<close>, in the order of the expression.\<close>

definition day_of :: "string \<Rightarrow> nat option" where
  "day_of ds =
     (case ds of
        [a, b] \<Rightarrow>
          (if a = CHR ''3'' \<and> b \<in> set ''01'' then Some (30 + digit_val b)
           else if a \<in> set ''12'' \<and> is_digit b then Some (10 * digit_val a + digit_val b)
           else if a = CHR ''0'' \<and> b \<in> set ''123456789'' then Some (digit_val b)
           else if a = CHR '' '' \<and> b \<in> set ''123456789'' then Some (digit_val b)
           else None)
      | [a] \<Rightarrow> (if a \<in> set ''123456789'' then Some (digit_val a) else None)
      | _ \<Rightarrow> None)"

definition year_of :: "string \<Rightarrow> nat option" where
  "year_of ys =
     (case ys of
        [a, b, c, d] \<Rightarrow>
          (if is_digit a \<and> is_digit b \<and> is_digit c \<and> is_digit d
           then Some (1000 * digit_val a + 100 * digit_val b + 10 * digit_val c + digit_val d)
           else None)
      | _ \<Rightarrow> None)"

definition is_leap :: "nat \<Rightarrow> bool" where
  "is_leap y \<longleftrightarrow> y mod 4 = 0 \<and> (y mod 100 \<noteq> 0 \<or> y mod 400 = 0)"

definition days_in_month :: "nat \<Rightarrow> nat \<Rightarrow> nat" where
  "days_in_month y m =
     (if m = 2 then (if is_leap y then 29 else 28)
      else if m \<in> set [4, 6, 9, 11] then 30 else 31)"

text \<open>The check of the \<^verbatim>\<open>datetime\<close> constructor (years 1 to 9999).\<close>

definition valid_date :: "nat \<Rightarrow> nat \<Rightarrow> nat \<Rightarrow> bool" where
  "valid_date y m d \<longleftrightarrow>
     1 \<le> y \<and> y \<le> 9999 \<and> 1 \<le> m \<and> m \<le> 12 \<and> 1 \<le> d \<and> d \<le> days_in_month y m"

text \<open>The parse of a string of ASCII characters: \<open>Some (year, month, day)\<close>, or
  \<open>None\<close> where the library raises \<open>ValueError\<close>.\<close>

definition strptime_ascii :: "string \<Rightarrow> (nat \<times> nat \<times> nat) option" where
  "strptime_ascii x =
     (case month_of (take 3 x) of
        None \<Rightarrow> None
      | Some m \<Rightarrow>
          (let r1 = drop 3 x; r2 = dropWhile ascii_space r1
           in if length r2 = length r1 then None
              else (case day_of (takeWhile (\<lambda>c. c \<noteq> CHR '','') r2) of
                      None \<Rightarrow> None
                    | Some d \<Rightarrow>
                        (case dropWhile (\<lambda>c. c \<noteq> CHR '','') r2 of
                           [] \<Rightarrow> None
                         | comma # r4 \<Rightarrow>
                             (let ys = dropWhile ascii_space r4
                              in if length ys = length r4 then None
                                 else (case year_of ys of
                                         None \<Rightarrow> None
                                       | Some y \<Rightarrow>
                                           (if valid_date y m d then Some (y, m, d)
                                            else None)))))))"

definition example_lib :: "real pylib" where
  "example_lib =
     \<lparr>py_float = float_of_digits, div_100 = (\<lambda>x. x / 100), py_strptime = strptime_ascii\<rparr>"

definition mk_el :: "string \<Rightarrow> string list \<Rightarrow> (string \<times> string) list \<Rightarrow> string \<Rightarrow> element" where
  "mk_el name cls attrs txt =
     \<lparr>el_name = name, el_class = cls, el_attrs = attrs, el_strings = [txt]\<rparr>"

definition drop_tag :: "string \<Rightarrow> soup \<Rightarrow> soup" where
  "drop_tag name soup = filter (\<lambda>e. el_name e \<noteq> name) soup"

text \<open>The movie page of the end-to-end scenario of the specification, with the score
  attributes and the text of the release date left open.\<close>

definition movie_page :: "(string \<times> string) list \<Rightarrow> string \<Rightarrow> soup" where
  "movie_page scores released =
     [mk_el ''meta'' [] [(''property'', ''og:type''), (''content'', ''video.movie'')] [],
      mk_el ''h1'' [''title''] [] ''Inception'',
      mk_el ''p'' [''info''] [] ''2010, R, 2h 28m'',
      mk_el ''span'' [''genre''] [] ''Sci-Fi, Action'',
      mk_el ''score-board-deprecated'' [] scores [],
      mk_el ''time'' [] [] released]"

definition both_scores :: "string \<Rightarrow> string \<Rightarrow> (string \<times> string) list" where
  "both_scores t a = [(''tomatometerscore'', t), (''audiencescore'', a)]"

text \<open>A season page with its heading left open, without and with the air date slot, the
  page of the series, and the URL of the season.\<close>

definition tv_page_base :: "string \<Rightarrow> soup" where
  "tv_page_base heading =
     [mk_el ''meta'' [] [(''property'', ''og:type''), (''content'', ''video.tv_show'')] [],
      mk_el ''h1'' [] [] heading,
      mk_el ''rt-link'' [] [(''href'', ''/browse/tv_series_browse/genres:drama'')] ''Drama'',
      mk_el ''rt-link'' [] [(''href'', ''/about'')] ''About'',
      mk_el ''rt-link'' [] [(''href'', ''/browse/tv_series_browse/genres:crime'')] ''Crime'',
      mk_el ''rt-link'' [] [(''href'', ''/browse/tv_series_browse/genres:drama'')] ''Drama'',
      mk_el ''rt-text'' [] [(''slot'', ''criticsScore'')] ''50%'',
      mk_el ''rt-text'' [] [(''slot'', ''audienceScore'')] ''75%'']"

definition tv_page :: "string \<Rightarrow> string \<Rightarrow> soup" where
  "tv_page heading aired =
     tv_page_base heading @ [mk_el ''rt-text'' [] [(''slot'', ''airDate'')] aired]"

definition series_page :: soup where
  "series_page = [mk_el ''rt-text'' [] [(''slot'', ''releaseDate'')] ''2008'']"

definition fetch_series :: "string \<Rightarrow> pyerror + soup" where
  "fetch_series u = Inr series_page"

definition season_url :: string where
  "season_url = ''https://www.rottentomatoes.com/tv/breaking_bad/s01''"

definition season_heading :: string where
  "season_heading = ''Season 1 '' @ separator @ '' Breaking Bad''"

text \<open>A page whose type marker is neither of the two, and an empty sheet and log.\<close>

definition website_page :: soup where
  "website_page =
     [mk_el ''meta'' [] [(''property'', ''og:type''), (''content'', ''website'')] []]"

definition empty_world :: "real world" where
  "empty_world = \<lparr>updates = [], log_file = []\<rparr>"

definition fetch_website :: "string \<Rightarrow> pyerror + soup" where
  "fetch_website u = Inr website_page"

definition sheet_header :: "string list" where
  "sheet_header = [''Title'', ''Movie or TV'', ''Year'', ''Genre'', ''Runtime'',
                   ''Tomatometer'', ''Audience Score'', ''Release Date'']"

section \<open>Text and document lemmas\<close>

lemma split_on_not_Nil: "split_on sep s \<noteq> []"
  by (induction s) (auto split: list.splits)

lemma split_on_no_sep: "sep \<notin> set p \<Longrightarrow> split_on sep p = [p]"
  by (induction p) auto

lemma split_on_append_sep:
  "sep \<notin> set p \<Longrightarrow> split_on sep (p @ sep # s) = p # split_on sep s"
  by (induction p) auto

text \<open>Splitting undoes joining when no part holds the separator.\<close>

lemma split_on_join:
  "parts \<noteq> [] \<Longrightarrow> \<forall>p\<in>set parts. sep \<notin> set p \<Longrightarrow> split_on sep (join [sep] parts) = parts"
proof (induction parts)
  case Nil
  then show ?case by simp
next
  case (Cons p ps)
  show ?case
  proof (cases ps)
    case Nil
    with Cons.prems show ?thesis by (simp add: split_on_no_sep)
  next
    case (Cons q qs)
    with Cons.prems Cons.IH show ?thesis
      by (simp add: split_on_append_sep)
  qed
qed

lemma genre_links_map_filter: "genre_links links = map get_text (filter is_genre_link links)"
  by (induction links) (auto simp: is_genre_link_def)

subsection \<open>The URL pattern\<close>

lemma match_series_url_Some:
  assumes "match_series_url s = Some g"
  shows "\<exists>c rest. s = tv_prefix @ c # rest \<and> c \<noteq> CHR ''/''"
proof -
  let ?r = "drop (length tv_prefix) s"
  from assms have pre: "take (length tv_prefix) s = tv_prefix"
    and seg: "takeWhile (\<lambda>c. c \<noteq> CHR ''/'') ?r \<noteq> []"
    by (auto simp: match_series_url_def starts_with_def Let_def split: if_splits)
  from seg obtain c rest where r: "?r = c # rest" and c: "c \<noteq> CHR ''/''"
    by (cases ?r) (auto split: if_splits)
  have "s = take (length tv_prefix) s @ ?r" by simp
  with pre r have "s = tv_prefix @ c # rest" by simp
  with c show ?thesis by blast
qed

lemma match_series_url_prefix:
  "c \<noteq> CHR ''/'' \<Longrightarrow> match_series_url (tv_prefix @ c # rest) \<noteq> None"
  by (simp add: match_series_url_def starts_with_def)

lemma search_series_url_Some:
  "search_series_url url = Some g \<Longrightarrow> series_url_pattern url"
proof (induction url)
  case Nil
  then show ?case
    by (auto simp: match_series_url_def starts_with_def tv_prefix_def)
next
  case (Cons a url)
  show ?case
  proof (cases "match_series_url (a # url)")
    case None
    with Cons.prems have "search_series_url url = Some g" by simp
    then have "series_url_pattern url" by (rule Cons.IH)
    then obtain pre c rest where "url = pre @ tv_prefix @ c # rest" "c \<noteq> CHR ''/''"
      unfolding series_url_pattern_def by blast
    then have "a # url = (a # pre) @ tv_prefix @ c # rest \<and> c \<noteq> CHR ''/''" by simp
    then show ?thesis unfolding series_url_pattern_def by blast
  next
    case (Some h)
    from match_series_url_Some[OF this] show ?thesis
      unfolding series_url_pattern_def by (metis append_Nil)
  qed
qed

lemma search_series_url_pattern:
  "c \<noteq> CHR ''/'' \<Longrightarrow> search_series_url (pre @ tv_prefix @ c # rest) \<noteq> None"
proof (induction pre)
  case Nil
  obtain a s where s: "tv_prefix @ c # rest = a # s"
    by (cases "tv_prefix @ c # rest") auto
  from Nil match_series_url_prefix[of c rest] show ?case
    unfolding append_Nil s by (auto split: option.splits)
next
  case (Cons a pre)
  then show ?case by (auto split: option.splits)
qed

lemma search_series_url_None_iff:
  "search_series_url url = None \<longleftrightarrow> \<not> series_url_pattern url"
proof
  assume "search_series_url url = None"
  then show "\<not> series_url_pattern url"
    unfolding series_url_pattern_def using search_series_url_pattern by blast
next
  assume "\<not> series_url_pattern url"
  then show "search_series_url url = None"
    using search_series_url_Some by (cases "search_series_url url") auto
qed

text \<open>Removing the elements of one tag does not change what is found under another.\<close>

lemma find_drop_tag:
  "name \<noteq> tag \<Longrightarrow>
     List.find (\<lambda>e. el_name e = name \<and> Q e) (drop_tag tag soup)
       = List.find (\<lambda>e. el_name e = name \<and> Q e) soup"
  by (induction soup) (auto simp: drop_tag_def)

lemma find_class_drop_tag:
  "name \<noteq> tag \<Longrightarrow> find_class (drop_tag tag soup) name cls = find_class soup name cls"
  unfolding find_class_def by (rule find_drop_tag)

lemma find_name_drop_tag:
  "name \<noteq> tag \<Longrightarrow> find_name (drop_tag tag soup) name = find_name soup name"
  using find_drop_tag[of name tag "\<lambda>e. True" soup] by (simp add: find_name_def)

lemma find_name_drop_same: "find_name (drop_tag tag soup) tag = None"
  by (induction soup) (auto simp: drop_tag_def find_name_def)

subsection \<open>Scores\<close>

lemma movie_score_Inl: "movie_score lib score_board a = Inl err \<Longrightarrow> err = ValueError"
  by (auto simp: movie_score_def float_div100_def split: option.splits if_splits)

lemma tv_score_Inl: "tv_score lib score_html = Inl err \<Longrightarrow> err = ValueError"
  by (auto simp: tv_score_def float_div100_def Let_def split: option.splits if_splits)



lemma movie_score_malformed:
  assumes "malformed_attr lib soup a"
  shows "movie_score lib (find_name soup ''score-board-deprecated'') a = Inl ValueError"
  using assms
  by (auto simp: malformed_attr_def movie_score_def float_div100_def split: option.splits)

lemma tv_score_malformed:
  assumes "malformed_slot lib soup slot"
  shows "tv_score lib (find_attr soup ''rt-text'' ''slot'' slot) = Inl ValueError"
  using assms
  by (auto simp: malformed_slot_def slot_text_def tv_score_def float_div100_def Let_def
           split: option.splits)

subsection \<open>What the movie extractor returns\<close>

lemma reformat_date_Inr:
  "reformat_date lib s
     = Inr (case py_strptime lib s of None \<Rightarrow> not_found | Some dt \<Rightarrow> strftime dt)"
  by (simp add: reformat_date_def check_date_format_def split: option.splits)

text \<open>With the \<open>info\<close> paragraph and two scores that parse, a record is returned.\<close>

lemma extract_movie_info_returns:
  assumes "find_class soup ''p'' ''info'' = Some info_html"
    and "movie_score lib (find_name soup ''score-board-deprecated'') ''tomatometerscore'' = Inr t"
    and "movie_score lib (find_name soup ''score-board-deprecated'') ''audiencescore'' = Inr a"
  shows "extract_movie_info lib soup =
     Inr \<lparr>r_title = (case find_class soup ''h1'' ''title'' of
                       Some e \<Rightarrow> get_text_strip e
                     | None \<Rightarrow> not_found),
          r_show_type = ''Movie'',
          r_year = strip (split_on CHR '','' (get_text_strip info_html) ! 0),
          r_genre = (case find_class soup ''span'' ''genre'' of
                       Some e \<Rightarrow> join '', '' (map strip (split_on CHR '','' (get_text_strip e)))
                     | None \<Rightarrow> not_found),
          r_runtime = (if length (split_on CHR '','' (get_text_strip info_html)) > 2
                       then strip (split_on CHR '','' (get_text_strip info_html) ! 2)
                       else not_found),
          r_tomatometer = t, r_audience_score = a,
          r_release_date = (case py_strptime lib (time_text soup) of
                              None \<Rightarrow> not_found
                            | Some dt \<Rightarrow> strftime dt)\<rparr>"
  using assms split_on_not_Nil[of "CHR '',''" "get_text_strip info_html"]
  unfolding extract_movie_info_def Let_def reformat_date_Inr time_text_def
  by simp

text \<open>A returned record comes from these three and holds these fields.\<close>

lemma extract_movie_info_Inr:
  assumes "extract_movie_info lib soup = Inr r"
  shows "\<exists>info_html. find_class soup ''p'' ''info'' = Some info_html
     \<and> r_genre r = (case find_class soup ''span'' ''genre'' of
                      Some e \<Rightarrow> join '', '' (map strip (split_on CHR '','' (get_text_strip e)))
                    | None \<Rightarrow> not_found)
     \<and> movie_score lib (find_name soup ''score-board-deprecated'') ''tomatometerscore''
         = Inr (r_tomatometer r)
     \<and> movie_score lib (find_name soup ''score-board-deprecated'') ''audiencescore''
         = Inr (r_audience_score r)
     \<and> r_release_date r = (case py_strptime lib (time_text soup) of
                              None \<Rightarrow> not_found
                            | Some dt \<Rightarrow> strftime dt)"
  using assms
  unfolding extract_movie_info_def Let_def reformat_date_Inr time_text_def
  by (auto split: option.splits sum.splits)

lemma extract_movie_info_Inl:
  assumes "extract_movie_info lib soup = Inl err"
  shows "(err = AttributeError \<and> find_class soup ''p'' ''info'' = None)
       \<or> (err = ValueError
            \<and> (movie_score lib (find_name soup ''score-board-deprecated'') ''tomatometerscore''
                  = Inl ValueError
               \<or> movie_score lib (find_name soup ''score-board-deprecated'') ''audiencescore''
                  = Inl ValueError))"
  using assms
  unfolding extract_movie_info_def Let_def reformat_date_Inr
  by (auto split: option.splits sum.splits dest: movie_score_Inl)

lemma extract_movie_info_score_error:
  assumes "find_class soup ''p'' ''info'' = Some info_html"
    and "movie_score lib (find_name soup ''score-board-deprecated'') ''tomatometerscore''
           = Inl ValueError
         \<or> movie_score lib (find_name soup ''score-board-deprecated'') ''audiencescore''
           = Inl ValueError"
  shows "extract_movie_info lib soup = Inl ValueError"
  using assms
  unfolding extract_movie_info_def Let_def reformat_date_Inr
  by (auto split: option.splits sum.splits dest: movie_score_Inl)

text \<open>The extraction is the extraction from the page without its \<open>time\<close> elements, with
  the release date filled in.\<close>

lemma extract_movie_info_time:
  "extract_movie_info lib soup =
     (case extract_movie_info lib (drop_tag ''time'' soup) of
        Inl err \<Rightarrow> Inl err
      | Inr r \<Rightarrow>
          Inr (r\<lparr>r_release_date :=
                   (case py_strptime lib (time_text soup) of
                      None \<Rightarrow> not_found
                    | Some dt \<Rightarrow> strftime dt)\<rparr>))"
  unfolding extract_movie_info_def Let_def reformat_date_Inr time_text_def
  by (simp add: find_class_drop_tag find_name_drop_tag find_name_drop_same
           split: option.splits sum.splits)

lemma without_release_date_time:
  "without_release_date (extract_movie_info lib soup)
     = without_release_date (extract_movie_info lib (drop_tag ''time'' soup))"
  by (subst extract_movie_info_time)
     (simp add: without_release_date_def split: sum.splits)

subsection \<open>What the television extractor returns\<close>

text \<open>With a series URL, a series page, two scores that parse and an air date that
  parses, a record is returned.\<close>

lemma extract_tv_info_returns:
  assumes "search_series_url url = Some series_url"
    and "fetch series_url = Inr series_soup"
    and "tv_score lib (find_attr soup ''rt-text'' ''slot'' ''criticsScore'') = Inr t"
    and "tv_score lib (find_attr soup ''rt-text'' ''slot'' ''audienceScore'') = Inr a"
    and "air_date_text soup \<noteq> not_found"
    and "py_strptime lib (air_date_text soup) = Some dt"
  shows "\<exists>r. extract_tv_info lib fetch soup url = Inr r
     \<and> r_show_type r = ''TV'' \<and> r_runtime r = ''N/A''
     \<and> r_genre r = join '', '' (genre_links (find_all soup ''rt-link''))
     \<and> r_tomatometer r = t \<and> r_audience_score r = a
     \<and> r_release_date r = strftime dt"
  using assms
  unfolding extract_tv_info_def Let_def air_date_text_def slot_text_def check_date_format_def
  by (simp split: option.splits)

lemma extract_tv_info_Inr:
  assumes "extract_tv_info lib fetch soup url = Inr r"
  shows "r_show_type r = ''TV'' \<and> r_runtime r = ''N/A''
     \<and> r_genre r = join '', '' (genre_links (find_all soup ''rt-link''))
     \<and> tv_score lib (find_attr soup ''rt-text'' ''slot'' ''criticsScore'') = Inr (r_tomatometer r)
     \<and> tv_score lib (find_attr soup ''rt-text'' ''slot'' ''audienceScore'')
         = Inr (r_audience_score r)"
  using assms
  unfolding extract_tv_info_def Let_def
  by (auto split: option.splits sum.splits if_splits)

lemma extract_tv_info_score_error:
  assumes "search_series_url url = Some series_url"
    and "fetch series_url = Inr series_soup"
    and "tv_score lib (find_attr soup ''rt-text'' ''slot'' ''criticsScore'') = Inl ValueError
         \<or> tv_score lib (find_attr soup ''rt-text'' ''slot'' ''audienceScore'') = Inl ValueError"
  shows "extract_tv_info lib fetch soup url = Inl ValueError"
  using assms
  unfolding extract_tv_info_def Let_def
  by (auto split: option.splits sum.splits dest: tv_score_Inl)

subsection \<open>What the dispatcher does with an error\<close>

lemma scrape_logs_extractor_error:
  assumes "fetch url = Inr soup"
    and "find_attr soup ''meta'' ''property'' ''og:type'' = Some meta"
    and "get_attr meta ''content'' = Some show_type"
    and "contains ''movie'' show_type \<and> extract_movie_info lib soup = Inl err
         \<or> \<not> contains ''movie'' show_type \<and> contains ''tv_show'' show_type
           \<and> extract_tv_info lib fetch soup url = Inl err"
    and "err \<noteq> RequestException" and "err \<noteq> FeatureNotFound"
  shows "scrape_rotten_tomatoes_and_update_sheet lib fetch url sheet row_number header_row
           column_indices
         = sheet\<lparr>log_file := log_file sheet @ [unexpected_error_entry url err]\<rparr>"
  using assms
  by (auto simp: scrape_rotten_tomatoes_and_update_sheet_def scrape_body_def handle_error_def
        emit_def unexpected_error_entry_def)

section \<open>Missing elements\<close>

text \<open>
  Claim C1. A page that lacks an optional element should still give a complete record,
  with \<open>not found\<close> in the field of that element and the other fields as they are. The
  code does not do so for the \<open>info\<close> paragraph of a movie page nor for the air date
  slot of a season page: on the scenario page without its \<open>info\<close> paragraph, line 72
  raises \<open>AttributeError\<close>, and on the season page without its air date slot, the
  \<open>return\<close> of line 143 raises \<open>UnboundLocalError\<close>. No record is returned.
\<close>

theorem missing_element_aborts_extraction:
  "extract_movie_info example_lib
     (drop_tag ''p'' (movie_page (both_scores ''87'' ''91'') ''Jul 16, 2010''))
     = Inl AttributeError
   \<and> extract_tv_info example_lib fetch_series (tv_page_base season_heading) season_url
     = Inl UnboundLocalError"
  by code_simp

section \<open>The air date of a season\<close>

text \<open>
  Claim C2. A season page whose air date slot holds text that is not a date should give
  a record with \<open>not found\<close> as release date. The code parses the text on line 139 before
  the guard of line 140, so the parse raises \<open>ValueError\<close> and no record is returned.
\<close>

theorem malformed_air_date_aborts_extraction:
  "extract_tv_info example_lib fetch_series (tv_page season_heading ''Aired sometime'')
     season_url
     = Inl ValueError"
  by code_simp

section \<open>The title of a season\<close>

text \<open>
  Claim C3. A heading that does not match the pattern of line 118 should give the
  sentinel as composed title. Both halves are then \<open>not found\<close>, which is a non-empty
  string, so the test of line 121 holds and the title is composed from the two sentinels.
\<close>

theorem unmatched_heading_composes_sentinels:
  "extract_tv_info example_lib fetch_series
     (tv_page ''Season 1 - Breaking Bad'' ''Aired Jan 20, 2008'') season_url
     = Inr \<lparr>r_title = ''not found (not found)'', r_show_type = ''TV'',
            r_year = ''2008 (2008)'', r_genre = ''Drama, Crime, Drama'', r_runtime = ''N/A'',
            r_tomatometer = Float (50 / 100), r_audience_score = Float (75 / 100),
            r_release_date = ''01/20/08''\<rparr>"
  by code_simp

section \<open>Scores\<close>

text \<open>
  Claim C5. A score that is absent should give the sentinel. On the scenario page with a
  score board that has no \<open>tomatometerscore\<close> attribute, the test of line 82 reads
  \<open>None\<close>, which is neither \<open>'not found'\<close> nor \<open>''\<close>, so \<^verbatim>\<open>float('not found')\<close> is
  evaluated and raises \<open>ValueError\<close>. No record is returned.
\<close>

theorem absent_score_attribute_aborts_extraction:
  "extract_movie_info example_lib
     (movie_page [(''audiencescore'', ''91'')] ''Jul 16, 2010'')
     = Inl ValueError"
  by code_simp

section \<open>The date format\<close>




section \<open>The series URL\<close>

text \<open>
  Claim C9. For a URL without the series pattern, that is, one in which the prefix
  \<open>https://www.rottentomatoes.com/tv/\<close> is nowhere followed by a character other than
  \<open>/\<close>, the television extractor returns no record: line 110 raises \<open>AttributeError\<close>,
  whatever the page holds and before the series page is fetched.
\<close>

theorem malformed_series_url_aborts:
  assumes "\<not> series_url_pattern url"
  shows "extract_tv_info lib fetch soup url = Inl AttributeError"
  using assms
  by (simp add: extract_tv_info_def search_series_url_None_iff [symmetric])

theorem malformed_series_url_aborts_witness:
  "\<not> series_url_pattern ''https://www.rottentomatoes.com/m/inception''
   \<and> extract_tv_info example_lib fetch_series (tv_page season_heading ''Aired Jan 20, 2008'')
       ''https://www.rottentomatoes.com/m/inception''
     = Inl AttributeError"
proof -
  have "search_series_url ''https://www.rottentomatoes.com/m/inception'' = None"
    by code_simp
  then have n: "\<not> series_url_pattern ''https://www.rottentomatoes.com/m/inception''"
    by (rule iffD1 [OF search_series_url_None_iff])
  from n malformed_series_url_aborts[OF n] show ?thesis by blast
qed

section \<open>Genres\<close>

text \<open>
  Claim C10. The genre field keeps the order of the source and its repetitions. For a
  movie whose genre text is the parts \<open>parts\<close> joined by commas, the field is the
  stripped parts, one for each part and in the same order, joined by \<open>, \<close>. For a season
  the field is the texts of the \<open>rt-link\<close> elements whose target contains \<open>genres:\<close>, one
  for each such link and in document order, joined by \<open>, \<close>. This holds of every record
  returned, and a record is returned: for a movie page with its \<open>info\<close> paragraph and
  scores that parse, for a season page with a series URL, a series page that is fetched,
  scores that parse and an air date that parses.
\<close>

theorem genre_keeps_order_and_repetitions:
  "(extract_movie_info lib soup = Inr r \<and> find_class soup ''span'' ''genre'' = Some e
      \<and> get_text_strip e = join '','' parts \<and> parts \<noteq> []
      \<and> (\<forall>p\<in>set parts. CHR '','' \<notin> set p)
      \<longrightarrow> r_genre r = join '', '' (map strip parts))
   \<and> (find_class soup ''p'' ''info'' = Some info_html
        \<and> movie_score lib (find_name soup ''score-board-deprecated'') ''tomatometerscore''
            = Inr vt
        \<and> movie_score lib (find_name soup ''score-board-deprecated'') ''audiencescore''
            = Inr va
        \<and> find_class soup ''span'' ''genre'' = Some e
        \<and> get_text_strip e = join '','' parts \<and> parts \<noteq> []
        \<and> (\<forall>p\<in>set parts. CHR '','' \<notin> set p)
        \<longrightarrow> (\<exists>r. extract_movie_info lib soup = Inr r
               \<and> r_genre r = join '', '' (map strip parts)))
   \<and> (extract_tv_info lib fetch tv_soup url = Inr r' \<longrightarrow>
        r_genre r'
          = join '', '' (map get_text (filter is_genre_link (find_all tv_soup ''rt-link''))))
   \<and> (search_series_url url = Some series_url \<and> fetch series_url = Inr series_soup
        \<and> tv_score lib (find_attr tv_soup ''rt-text'' ''slot'' ''criticsScore'') = Inr vc
        \<and> tv_score lib (find_attr tv_soup ''rt-text'' ''slot'' ''audienceScore'') = Inr vu
        \<and> air_date_text tv_soup \<noteq> not_found
        \<and> py_strptime lib (air_date_text tv_soup) = Some dt
        \<longrightarrow> (\<exists>r'. extract_tv_info lib fetch tv_soup url = Inr r'
               \<and> r_genre r'
                   = join '', ''
                       (map get_text (filter is_genre_link (find_all tv_soup ''rt-link'')))))"
proof (intro conjI impI)
  assume a: "extract_movie_info lib soup = Inr r \<and> find_class soup ''span'' ''genre'' = Some e
      \<and> get_text_strip e = join '','' parts \<and> parts \<noteq> []
      \<and> (\<forall>p\<in>set parts. CHR '','' \<notin> set p)"
  then have "split_on CHR '','' (get_text_strip e) = parts"
    using split_on_join[of parts "CHR '',''"] by simp
  with a extract_movie_info_Inr[of lib soup r] show "r_genre r = join '', '' (map strip parts)"
    by auto
next
  assume a: "find_class soup ''p'' ''info'' = Some info_html
        \<and> movie_score lib (find_name soup ''score-board-deprecated'') ''tomatometerscore''
            = Inr vt
        \<and> movie_score lib (find_name soup ''score-board-deprecated'') ''audiencescore''
            = Inr va
        \<and> find_class soup ''span'' ''genre'' = Some e
        \<and> get_text_strip e = join '','' parts \<and> parts \<noteq> []
        \<and> (\<forall>p\<in>set parts. CHR '','' \<notin> set p)"
  then have s: "split_on CHR '','' (get_text_strip e) = parts"
    using split_on_join[of parts "CHR '',''"] by simp
  from a have "\<exists>r. extract_movie_info lib soup = Inr r
      \<and> r_genre r = (case find_class soup ''span'' ''genre'' of
                       Some e \<Rightarrow> join '', '' (map strip (split_on CHR '','' (get_text_strip e)))
                     | None \<Rightarrow> not_found)"
    using extract_movie_info_returns[of soup info_html lib vt va] by simp
  with a s show "\<exists>r. extract_movie_info lib soup = Inr r
               \<and> r_genre r = join '', '' (map strip parts)"
    by simp
next
  assume "extract_tv_info lib fetch tv_soup url = Inr r'"
  from extract_tv_info_Inr[OF this]
  show "r_genre r'
          = join '', '' (map get_text (filter is_genre_link (find_all tv_soup ''rt-link'')))"
    by (simp add: genre_links_map_filter)
next
  assume a: "search_series_url url = Some series_url \<and> fetch series_url = Inr series_soup
        \<and> tv_score lib (find_attr tv_soup ''rt-text'' ''slot'' ''criticsScore'') = Inr vc
        \<and> tv_score lib (find_attr tv_soup ''rt-text'' ''slot'' ''audienceScore'') = Inr vu
        \<and> air_date_text tv_soup \<noteq> not_found
        \<and> py_strptime lib (air_date_text tv_soup) = Some dt"
  then have "\<exists>r. extract_tv_info lib fetch tv_soup url = Inr r
     \<and> r_show_type r = ''TV'' \<and> r_runtime r = ''N/A''
     \<and> r_genre r = join '', '' (genre_links (find_all tv_soup ''rt-link''))
     \<and> r_tomatometer r = vc \<and> r_audience_score r = vu
     \<and> r_release_date r = strftime dt"
    by (intro extract_tv_info_returns[where series_url = series_url
          and series_soup = series_soup]) auto
  then show "\<exists>r'. extract_tv_info lib fetch tv_soup url = Inr r'
               \<and> r_genre r'
                   = join '', ''
                       (map get_text (filter is_genre_link (find_all tv_soup ''rt-link'')))"
    by (auto simp: genre_links_map_filter)
qed

theorem genre_keeps_order_and_repetitions_witness:
  "(\<exists>r. extract_movie_info example_lib
            (movie_page (both_scores ''50'' ''75'') ''Jul 16, 2010'') = Inr r
        \<and> r_genre r = ''Sci-Fi, Action'')
   \<and> (\<exists>r'. extract_tv_info example_lib fetch_series
             (tv_page season_heading ''Aired Jan 20, 2008'') season_url = Inr r'
        \<and> r_genre r' = ''Drama, Crime, Drama'')"
proof -
  let ?page = "movie_page (both_scores ''50'' ''75'') ''Jul 16, 2010''"
  let ?tv = "tv_page season_heading ''Aired Jan 20, 2008''"
  let ?info = "mk_el ''p'' [''info''] [] ''2010, R, 2h 28m''"
  let ?e = "mk_el ''span'' [''genre''] [] ''Sci-Fi, Action''"
  let ?su = "''https://www.rottentomatoes.com/tv/breaking_bad''"
  have hm: "find_class ?page ''p'' ''info'' = Some ?info
      \<and> movie_score example_lib (find_name ?page ''score-board-deprecated'')
          ''tomatometerscore'' = Inr (Float (50 / 100))
      \<and> movie_score example_lib (find_name ?page ''score-board-deprecated'')
          ''audiencescore'' = Inr (Float (75 / 100))
      \<and> find_class ?page ''span'' ''genre'' = Some ?e
      \<and> get_text_strip ?e = join '','' [''Sci-Fi'', '' Action'']
      \<and> [''Sci-Fi'', '' Action''] \<noteq> []"
    by code_simp
  have n: "\<forall>p\<in>set [''Sci-Fi'', '' Action'']. CHR '','' \<notin> set p"
    by simp
  have j: "join '', '' (map strip [''Sci-Fi'', '' Action'']) = ''Sci-Fi, Action''"
    by code_simp
  have ht: "search_series_url season_url = Some ?su
      \<and> fetch_series ?su = Inr series_page
      \<and> tv_score example_lib (find_attr ?tv ''rt-text'' ''slot'' ''criticsScore'')
          = Inr (Float (50 / 100))
      \<and> tv_score example_lib (find_attr ?tv ''rt-text'' ''slot'' ''audienceScore'')
          = Inr (Float (75 / 100))
      \<and> air_date_text ?tv \<noteq> not_found
      \<and> py_strptime example_lib (air_date_text ?tv) = Some (2008, 1, 20)"
    by code_simp
  have g: "join '', '' (map get_text (filter is_genre_link (find_all ?tv ''rt-link'')))
      = ''Drama, Crime, Drama''"
    by code_simp
  note t = genre_keeps_order_and_repetitions
    [where lib = example_lib and soup = ?page and info_html = ?info and e = ?e
       and vt = "Float (50 / 100)" and va = "Float (75 / 100)"
       and parts = "[''Sci-Fi'', '' Action'']" and fetch = fetch_series and tv_soup = ?tv
       and url = season_url and series_url = ?su and series_soup = series_page
       and vc = "Float (50 / 100)" and vu = "Float (75 / 100)" and dt = "(2008, 1, 20)"]
  from t hm n have "\<exists>r. extract_movie_info example_lib ?page = Inr r
      \<and> r_genre r = join '', '' (map strip [''Sci-Fi'', '' Action''])"
    by blast
  with j have m: "\<exists>r. extract_movie_info example_lib ?page = Inr r
      \<and> r_genre r = ''Sci-Fi, Action''"
    by simp
  from t ht have "\<exists>r'. extract_tv_info example_lib fetch_series ?tv season_url = Inr r'
      \<and> r_genre r'
          = join '', '' (map get_text (filter is_genre_link (find_all ?tv ''rt-link'')))"
    by blast
  with g have s: "\<exists>r'. extract_tv_info example_lib fetch_series ?tv season_url = Inr r'
      \<and> r_genre r' = ''Drama, Crime, Drama''"
    by simp
  from m s show ?thesis by blast
qed

section \<open>Parse failures\<close>

text \<open>On the scenario page with the tomatometer score \<open>abc\<close>, \<^verbatim>\<open>float('abc')\<close> raises on
  line 82 and no record is returned.\<close>

theorem malformed_score_aborts_extraction:
  "extract_movie_info example_lib
     (movie_page (both_scores ''abc'' ''91'') ''Jul 16, 2010'')
     = Inl ValueError"
  by code_simp

text \<open>
  Claim C4, as amended. The claim says that every malformed date or number is caught
  where it is parsed and becomes \<open>not found\<close>. That holds for the release date of a
  movie: two pages that differ only in their \<open>time\<close> elements give the same outcome
  apart from the release date, and a page with its \<open>info\<close> paragraph, scores that parse
  and a \<open>time\<close> text that is not a date gives a record with those scores and the release
  date \<open>not found\<close>. It does not hold for a score: nothing catches the \<open>ValueError\<close> of
  \<^verbatim>\<open>float\<close>. A movie page with its \<open>info\<close> paragraph and a malformed critic or audience
  score attribute, and a season page with a series URL, a series page that is fetched and
  a malformed critic or audience score slot, end the extraction with \<open>ValueError\<close>. The
  dispatcher then leaves the sheet as it is and adds one entry to the log: level
  \<open>ERROR\<close>, the message of line 265, the URL and the \<open>ValueError\<close>.
\<close>

theorem parse_failure_handling:
  "(drop_tag ''time'' soup1 = drop_tag ''time'' soup2 \<longrightarrow>
      without_release_date (extract_movie_info lib soup1)
        = without_release_date (extract_movie_info lib soup2))
   \<and> (find_class soup ''p'' ''info'' = Some info_html
        \<and> movie_score lib (find_name soup ''score-board-deprecated'') ''tomatometerscore''
            = Inr vt
        \<and> movie_score lib (find_name soup ''score-board-deprecated'') ''audiencescore''
            = Inr va
        \<and> \<not> check_date_format lib (time_text soup)
        \<longrightarrow> (\<exists>r. extract_movie_info lib soup = Inr r \<and> r_release_date r = not_found
               \<and> r_tomatometer r = vt \<and> r_audience_score r = va))
   \<and> (find_class bad_soup ''p'' ''info'' = Some bad_info
        \<and> (malformed_attr lib bad_soup ''tomatometerscore''
             \<or> malformed_attr lib bad_soup ''audiencescore'')
        \<longrightarrow> extract_movie_info lib bad_soup = Inl ValueError)
   \<and> (search_series_url url = Some series_url \<and> fetch series_url = Inr series_soup
        \<and> (malformed_slot lib tv_soup ''criticsScore''
             \<or> malformed_slot lib tv_soup ''audienceScore'')
        \<longrightarrow> extract_tv_info lib fetch tv_soup url = Inl ValueError)
   \<and> (fetch' url' = Inr page
        \<and> find_attr page ''meta'' ''property'' ''og:type'' = Some meta
        \<and> get_attr meta ''content'' = Some show_type
        \<and> (contains ''movie'' show_type \<and> extract_movie_info lib page = Inl ValueError
             \<or> \<not> contains ''movie'' show_type \<and> contains ''tv_show'' show_type
               \<and> extract_tv_info lib fetch' page url' = Inl ValueError)
        \<longrightarrow> scrape_rotten_tomatoes_and_update_sheet lib fetch' url' sheet row_number
              header_row column_indices
            = sheet\<lparr>log_file := log_file sheet @ [unexpected_error_entry url' ValueError]\<rparr>)"
proof (intro conjI impI)
  assume "drop_tag ''time'' soup1 = drop_tag ''time'' soup2"
  then show "without_release_date (extract_movie_info lib soup1)
        = without_release_date (extract_movie_info lib soup2)"
    using without_release_date_time[of lib soup1] without_release_date_time[of lib soup2]
    by simp
next
  assume a: "find_class soup ''p'' ''info'' = Some info_html
        \<and> movie_score lib (find_name soup ''score-board-deprecated'') ''tomatometerscore''
            = Inr vt
        \<and> movie_score lib (find_name soup ''score-board-deprecated'') ''audiencescore''
            = Inr va
        \<and> \<not> check_date_format lib (time_text soup)"
  then have n: "py_strptime lib (time_text soup) = None"
    by (simp add: check_date_format_def split: option.splits)
  from a show "\<exists>r. extract_movie_info lib soup = Inr r \<and> r_release_date r = not_found
               \<and> r_tomatometer r = vt \<and> r_audience_score r = va"
    using extract_movie_info_returns[of soup info_html lib vt va] n by simp
next
  assume a: "find_class bad_soup ''p'' ''info'' = Some bad_info
        \<and> (malformed_attr lib bad_soup ''tomatometerscore''
             \<or> malformed_attr lib bad_soup ''audiencescore'')"
  then have "movie_score lib (find_name bad_soup ''score-board-deprecated'')
                 ''tomatometerscore'' = Inl ValueError
             \<or> movie_score lib (find_name bad_soup ''score-board-deprecated'')
                 ''audiencescore'' = Inl ValueError"
    using movie_score_malformed by blast
  with a show "extract_movie_info lib bad_soup = Inl ValueError"
    using extract_movie_info_score_error by blast
next
  assume a: "search_series_url url = Some series_url \<and> fetch series_url = Inr series_soup
        \<and> (malformed_slot lib tv_soup ''criticsScore''
             \<or> malformed_slot lib tv_soup ''audienceScore'')"
  then have "tv_score lib (find_attr tv_soup ''rt-text'' ''slot'' ''criticsScore'')
               = Inl ValueError
             \<or> tv_score lib (find_attr tv_soup ''rt-text'' ''slot'' ''audienceScore'')
               = Inl ValueError"
    using tv_score_malformed by blast
  with a show "extract_tv_info lib fetch tv_soup url = Inl ValueError"
    using extract_tv_info_score_error[where series_url = series_url
        and series_soup = series_soup and fetch = fetch] by blast
next
  assume a: "fetch' url' = Inr page
        \<and> find_attr page ''meta'' ''property'' ''og:type'' = Some meta
        \<and> get_attr meta ''content'' = Some show_type
        \<and> (contains ''movie'' show_type \<and> extract_movie_info lib page = Inl ValueError
             \<or> \<not> contains ''movie'' show_type \<and> contains ''tv_show'' show_type
               \<and> extract_tv_info lib fetch' page url' = Inl ValueError)"
  then show "scrape_rotten_tomatoes_and_update_sheet lib fetch' url' sheet row_number
              header_row column_indices
            = sheet\<lparr>log_file := log_file sheet @ [unexpected_error_entry url' ValueError]\<rparr>"
    by (intro scrape_logs_extractor_error[where fetch = fetch' and url = url'
          and soup = page and meta = meta and show_type = show_type]) auto
qed

theorem parse_failure_handling_witness:
  "without_release_date
       (extract_movie_info example_lib (movie_page (both_scores ''50'' ''75'') ''sometime''))
     = without_release_date
         (extract_movie_info example_lib
            (movie_page (both_scores ''50'' ''75'') ''Jul 16, 2010''))
   \<and> (\<exists>r. extract_movie_info example_lib (movie_page (both_scores ''50'' ''75'') ''sometime'')
            = Inr r
          \<and> r_release_date r = not_found
          \<and> r_tomatometer r = Float (50 / 100) \<and> r_audience_score r = Float (75 / 100))
   \<and> extract_movie_info example_lib
       (movie_page (both_scores ''50'' ''abc'') ''Jul 16, 2010'')
     = Inl ValueError
   \<and> extract_tv_info example_lib fetch_series
       (mk_el ''rt-text'' [] [(''slot'', ''audienceScore'')] ''fresh''
          # tv_page season_heading ''Aired Jan 20, 2008'') season_url
     = Inl ValueError
   \<and> scrape_rotten_tomatoes_and_update_sheet example_lib
       (\<lambda>u. Inr (movie_page (both_scores ''50'' ''abc'') ''Jul 16, 2010''))
       ''https://www.rottentomatoes.com/m/inception'' empty_world 448 sheet_header
       [1, 2, 3, 4, 5, 6, 7, 8]
     = empty_world
         \<lparr>log_file := log_file empty_world
            @ [unexpected_error_entry ''https://www.rottentomatoes.com/m/inception''
                 ValueError]\<rparr>"
proof -
  let ?good = "movie_page (both_scores ''50'' ''75'') ''Jul 16, 2010''"
  let ?odd = "movie_page (both_scores ''50'' ''75'') ''sometime''"
  let ?bad = "movie_page (both_scores ''50'' ''abc'') ''Jul 16, 2010''"
  let ?tv = "mk_el ''rt-text'' [] [(''slot'', ''audienceScore'')] ''fresh''
               # tv_page season_heading ''Aired Jan 20, 2008''"
  let ?info = "mk_el ''p'' [''info''] [] ''2010, R, 2h 28m''"
  let ?meta = "mk_el ''meta'' [] [(''property'', ''og:type''), (''content'', ''video.movie'')] []"
  let ?u = "''https://www.rottentomatoes.com/m/inception''"
  let ?su = "''https://www.rottentomatoes.com/tv/breaking_bad''"
  have h1: "drop_tag ''time'' ?odd = drop_tag ''time'' ?good"
    by code_simp
  have h2: "find_class ?odd ''p'' ''info'' = Some ?info
      \<and> movie_score example_lib (find_name ?odd ''score-board-deprecated'')
          ''tomatometerscore'' = Inr (Float (50 / 100))
      \<and> movie_score example_lib (find_name ?odd ''score-board-deprecated'')
          ''audiencescore'' = Inr (Float (75 / 100))
      \<and> \<not> check_date_format example_lib (time_text ?odd)"
    by code_simp
  have h3: "find_class ?bad ''p'' ''info'' = Some ?info
      \<and> malformed_attr example_lib ?bad ''audiencescore''"
    by code_simp
  have h4: "search_series_url season_url = Some ?su
      \<and> fetch_series ?su = Inr series_page
      \<and> malformed_slot example_lib ?tv ''audienceScore''"
    by code_simp
  have h5: "find_attr ?bad ''meta'' ''property'' ''og:type'' = Some ?meta
      \<and> get_attr ?meta ''content'' = Some ''video.movie''
      \<and> contains ''movie'' ''video.movie''"
    by code_simp
  note t1 = parse_failure_handling
    [where ?soup1.0 = ?odd and ?soup2.0 = ?good and lib = example_lib and soup = ?odd
       and info_html = ?info and vt = "Float (50 / 100)" and va = "Float (75 / 100)"
       and bad_soup = ?bad and bad_info = ?info and url = season_url and series_url = ?su
       and fetch = fetch_series and series_soup = series_page and tv_soup = ?tv
       and fetch' = "\<lambda>u. Inr ?bad" and url' = ?u and page = ?bad and meta = ?meta
       and show_type = "''video.movie''" and sheet = empty_world and row_number = 448
       and header_row = sheet_header and column_indices = "[1, 2, 3, 4, 5, 6, 7, 8]"]
  from t1 h1 have c1: "without_release_date (extract_movie_info example_lib ?odd)
        = without_release_date (extract_movie_info example_lib ?good)"
    by blast
  from t1 h2 have c2: "\<exists>r. extract_movie_info example_lib ?odd = Inr r
        \<and> r_release_date r = not_found
        \<and> r_tomatometer r = Float (50 / 100) \<and> r_audience_score r = Float (75 / 100)"
    by blast
  from t1 h3 have c3: "extract_movie_info example_lib ?bad = Inl ValueError"
    by blast
  from t1 h4 have c4: "extract_tv_info example_lib fetch_series ?tv season_url = Inl ValueError"
    by blast
  from t1 h5 c3 have c5: "scrape_rotten_tomatoes_and_update_sheet example_lib (\<lambda>u. Inr ?bad) ?u
        empty_world 448 sheet_header [1, 2, 3, 4, 5, 6, 7, 8]
      = empty_world\<lparr>log_file := log_file empty_world @ [unexpected_error_entry ?u ValueError]\<rparr>"
    by blast
  from c1 c2 c3 c4 c5 show ?thesis
    by blast
qed

section \<open>The range of a score\<close>




section \<open>Pages of an unrecognised type\<close>

lemma scrape_body_unrecognized:
  assumes "fetch url = Inr soup" and "unrecognized_type soup"
  shows "scrape_body lib fetch url sheet row_number header_row column_indices
     = (case find_attr soup ''meta'' ''property'' ''og:type'' of
          None \<Rightarrow> Inl TypeError
        | Some meta \<Rightarrow>
            (case get_attr meta ''content'' of
               None \<Rightarrow> Inl KeyError
             | Some v \<Rightarrow> Inr sheet))"
  using assms
  by (auto simp: scrape_body_def unrecognized_type_def emit_def split: option.splits)

text \<open>
  Claim C8. For a page without a recognised type marker, the dispatcher calls no
  extractor and writes nothing to the sheet. Its result does not depend on what the
  extractors would do: without the \<open>og:type\<close> element, or without its \<open>content\<close>
  attribute, the subscript of line 237 raises, the error is logged and the call returns;
  with a value that holds neither \<open>movie\<close> nor \<open>tv_show\<close>, the call returns with sheet
  and log as they were (the warning is below the level of the log). The loop of \<open>main\<close>
  goes on with the next URL and the next row.
\<close>

theorem unrecognized_type_is_skipped:
  assumes "fetch url = Inr soup" and "unrecognized_type soup"
  shows "scrape_rotten_tomatoes_and_update_sheet lib fetch url sheet row_number header_row
             column_indices
           = (case find_attr soup ''meta'' ''property'' ''og:type'' of
                None \<Rightarrow> handle_error TypeError url sheet
              | Some meta \<Rightarrow>
                  (case get_attr meta ''content'' of
                     None \<Rightarrow> handle_error KeyError url sheet
                   | Some v \<Rightarrow> sheet))
         \<and> updates (scrape_rotten_tomatoes_and_update_sheet lib fetch url sheet row_number
                       header_row column_indices)
           = updates sheet
         \<and> (\<exists>sheet'. updates sheet' = updates sheet
               \<and> main_loop lib fetch sheet header_row column_indices row_number (url # urls)
                 = main_loop lib fetch sheet' header_row column_indices (row_number + 1) urls)"
proof -
  let ?res = "scrape_rotten_tomatoes_and_update_sheet lib fetch url sheet row_number header_row
             column_indices"
  have r: "?res = (case find_attr soup ''meta'' ''property'' ''og:type'' of
                None \<Rightarrow> handle_error TypeError url sheet
              | Some meta \<Rightarrow>
                  (case get_attr meta ''content'' of
                     None \<Rightarrow> handle_error KeyError url sheet
                   | Some v \<Rightarrow> sheet))"
    unfolding scrape_rotten_tomatoes_and_update_sheet_def
      scrape_body_unrecognized[where fetch = fetch and url = url, OF assms]
    by (simp split: option.splits)
  have u: "updates ?res = updates sheet"
    unfolding r by (simp add: handle_error_def emit_def split: option.splits)
  have "main_loop lib fetch sheet header_row column_indices row_number (url # urls)
      = main_loop lib fetch ?res header_row column_indices (row_number + 1) urls"
    by simp
  with r u show ?thesis by blast
qed

theorem unrecognized_type_is_skipped_witness:
  "fetch_website ''https://www.rottentomatoes.com/'' = Inr website_page
   \<and> unrecognized_type website_page
   \<and> scrape_rotten_tomatoes_and_update_sheet example_lib fetch_website
       ''https://www.rottentomatoes.com/'' empty_world 448 sheet_header [1, 2, 3, 4, 5, 6, 7, 8]
     = empty_world
   \<and> main_loop example_lib fetch_website empty_world sheet_header [1, 2, 3, 4, 5, 6, 7, 8]
       448 [''https://www.rottentomatoes.com/'']
     = empty_world"
proof -
  let ?u = "''https://www.rottentomatoes.com/''"
  have f: "fetch_website ?u = Inr website_page"
    by (simp add: fetch_website_def)
  have n: "unrecognized_type website_page"
    by code_simp
  have c: "(case find_attr website_page ''meta'' ''property'' ''og:type'' of
              None \<Rightarrow> handle_error TypeError ?u empty_world
            | Some meta \<Rightarrow>
                (case get_attr meta ''content'' of
                   None \<Rightarrow> handle_error KeyError ?u empty_world
                 | Some v \<Rightarrow> empty_world)) = empty_world"
    by code_simp
  from unrecognized_type_is_skipped
         [where fetch = fetch_website and url = ?u and soup = website_page
            and lib = example_lib and sheet = empty_world and row_number = 448
            and header_row = sheet_header and column_indices = "[1, 2, 3, 4, 5, 6, 7, 8]"
            and urls = "[]", OF f n] c
  have s: "scrape_rotten_tomatoes_and_update_sheet example_lib fetch_website ?u empty_world
             448 sheet_header [1, 2, 3, 4, 5, 6, 7, 8] = empty_world"
    by simp
  then have "main_loop example_lib fetch_website empty_world sheet_header
               [1, 2, 3, 4, 5, 6, 7, 8] 448 [?u] = empty_world"
    by simp
  with f n s show ?thesis by blast
qed

end
